theory Spec2Isabelle
  imports Complex_Main
begin

section \<open>JavaScript values, responses and the outside world\<close>

text \<open>
  The route handlers of \<^verbatim>\<open>traders.js\<close>, \<^verbatim>\<open>markets.js\<close>, \<^verbatim>\<open>copyTrades.js\<close> and
  \<^verbatim>\<open>x402.js\<close> work on loosely typed JSON. A value of a request body, of a response body or
  of an opaque store column is a \<open>jsval\<close>. Numbers are kept exact (a JSON number is a finite
  decimal); \<open>JTime t\<close> is the ISO string that \<^verbatim>\<open>toISOString()\<close> prints for the instant
  \<open>t\<close>, in milliseconds. Strings are byte strings, and \<^verbatim>\<open>toLowerCase\<close> is modelled on
  ASCII letters, which is what a hexadecimal wallet address consists of.
\<close>

datatype jsval =
    JUndefined
  | JNull
  | JBool bool
  | JNum rat
  | JStr string
  | JTime int
  | JArr "jsval list"
  | JObj "(string \<times> jsval) list"

text \<open>Truthiness, as \<^verbatim>\<open>!x\<close> and \<^verbatim>\<open>x || y\<close> test it.\<close>

fun truthy :: "jsval \<Rightarrow> bool" where
  "truthy JUndefined = False"
| "truthy JNull = False"
| "truthy (JBool b) = b"
| "truthy (JNum r) = (r \<noteq> 0)"
| "truthy (JStr s) = (s \<noteq> [])"
| "truthy (JTime t) = True"
| "truthy (JArr xs) = True"
| "truthy (JObj kvs) = True"

definition or_else :: "jsval \<Rightarrow> jsval \<Rightarrow> jsval" where
  \<comment> \<open>\<^verbatim>\<open>a || b\<close>\<close>
  "or_else a b = (if truthy a then a else b)"

definition default_to :: "jsval \<Rightarrow> jsval \<Rightarrow> jsval" where
  \<comment> \<open>a destructuring default \<^verbatim>\<open>{ x = d }\<close>: only \<^verbatim>\<open>undefined\<close> takes the default\<close>
  "default_to v d = (if v = JUndefined then d else v)"

definition field :: "(string \<times> jsval) list \<Rightarrow> string \<Rightarrow> jsval" where
  \<comment> \<open>destructuring a property of \<^verbatim>\<open>req.body\<close>: a missing property is \<^verbatim>\<open>undefined\<close>\<close>
  "field obj k = (case map_of obj k of None \<Rightarrow> JUndefined | Some v \<Rightarrow> v)"

fun jsprop :: "jsval \<Rightarrow> string \<Rightarrow> jsval" where
  \<comment> \<open>\<^verbatim>\<open>v.k\<close> on a value that is neither \<^verbatim>\<open>null\<close> nor \<^verbatim>\<open>undefined\<close>\<close>
  "jsprop (JObj kvs) k = field kvs k"
| "jsprop v k = JUndefined"

definition lower_char :: "char \<Rightarrow> char" where
  "lower_char c =
     (let n = (of_char c :: nat) in if 65 \<le> n \<and> n \<le> 90 then char_of (n + 32) else c)"

definition lower :: "string \<Rightarrow> string" where
  \<comment> \<open>\<^verbatim>\<open>s.toLowerCase()\<close> on a string\<close>
  "lower s = map lower_char s"

definition toLowerCase :: "jsval \<Rightarrow> string option" where
  \<comment> \<open>\<^verbatim>\<open>v.toLowerCase()\<close> on a truthy value: a TypeError (\<open>None\<close>) unless \<open>v\<close> is a string\<close>
  "toLowerCase v = (case v of JStr s \<Rightarrow> Some (lower s) | _ \<Rightarrow> None)"

fun is_boolean :: "jsval \<Rightarrow> bool" where
  \<comment> \<open>\<^verbatim>\<open>typeof v === 'boolean'\<close>\<close>
  "is_boolean (JBool b) = True"
| "is_boolean v = False"

text \<open>
  Converting a value of a JSON body to a primitive (as \<^verbatim>\<open>new Date(v)\<close>, \<^verbatim>\<open>v * 1000\<close>,
  \<^verbatim>\<open>parseFloat(v)\<close> and a template string do) throws a TypeError exactly when no method
  gives one: a plain object answers through the inherited \<^verbatim>\<open>toString\<close> unless a property
  of its own, never callable in JSON, hides it; an array joins its elements, converting
  each of them in turn.
\<close>

fun unconvertible :: "jsval \<Rightarrow> bool" where
  "unconvertible (JObj kvs) = (map_of kvs ''toString'' \<noteq> None)"
| "unconvertible (JArr xs) = list_ex unconvertible xs"
| "unconvertible v = False"

definition nullable :: "jsval option \<Rightarrow> jsval" where
  \<comment> \<open>the \<^verbatim>\<open>data\<close> of an opaque row: \<^verbatim>\<open>null\<close> when there is none\<close>
  "nullable d = (case d of None \<Rightarrow> JNull | Some v \<Rightarrow> v)"

definition js_int :: "int option \<Rightarrow> jsval" where
  \<comment> \<open>the value of \<^verbatim>\<open>parseInt(id)\<close> in a JSON body: \<^verbatim>\<open>NaN\<close> (\<open>None\<close>) is written \<^verbatim>\<open>null\<close>\<close>
  "js_int n = (case n of None \<Rightarrow> JNull | Some i \<Rightarrow> JNum (of_int i))"

definition optional :: "string option \<Rightarrow> jsval" where
  \<comment> \<open>\<^verbatim>\<open>x?.wallet_address\<close> on a joined user that may be \<^verbatim>\<open>null\<close>\<close>
  "optional a = (case a of None \<Rightarrow> JUndefined | Some s \<Rightarrow> JStr s)"

record response =
  status :: nat
  body :: jsval

definition json :: "jsval \<Rightarrow> response" where
  \<comment> \<open>\<^verbatim>\<open>res.json(b)\<close>\<close>
  "json b = \<lparr>status = 200, body = b\<rparr>"

definition fail :: "nat \<Rightarrow> string \<Rightarrow> response" where
  \<comment> \<open>\<^verbatim>\<open>res.status(n).json({ error: msg })\<close>\<close>
  "fail n msg = \<lparr>status = n, body = JObj [(''error'', JStr msg)]\<rparr>"

text \<open>
  What a store call resolves to: supabase-js never rejects, it resolves to
  \<^verbatim>\<open>{ data, error }\<close>.
\<close>

datatype db_error = PGRST116 | Rejected

record 'a db_response =
  data :: "'a option"
  error :: "db_error option"

text \<open>What a handler can throw into its \<^verbatim>\<open>catch\<close>.\<close>

datatype exn = TypeError | RangeError | Thrown db_error

text \<open>
  Every call that leaves the process and every console line is recorded, in order.
  The store holds the two tables whose contents the handlers below read back:
  \<^verbatim>\<open>users\<close> and \<^verbatim>\<open>copy_trades\<close>. The other tables are written and read through calls
  whose resolved value is an argument of the handler.
\<close>

datatype event = Call string string | Console string

record user_row =
  uid :: int
  wallet_address :: string
  is_public :: "jsval option"

record copy_trade_row =
  ctid :: int
  follower_id :: int
  trader_id :: int
  amount :: jsval
  categories :: jsval
  max_trades :: jsval
  active :: jsval
  created_at :: jsval
  updated_at :: jsval
  executed_trades :: jsval

record world =
  users :: "user_row list"
  copy_trades :: "copy_trade_row list"
  events :: "event list"

definition emit :: "event \<Rightarrow> world \<Rightarrow> world" where
  "emit e w = w\<lparr>events := events w @ [e]\<rparr>"

section \<open>The store\<close>

text \<open>
  A store call takes a flag \<open>fault\<close>: the call fails (the store is unreachable, or it
  rejects the call), it resolves to an error and nothing is written. Every call is recorded
  in the events, failed or not.
\<close>

definition rejected :: "'a db_response" where
  "rejected = \<lparr>data = None, error = Some Rejected\<rparr>"

definition found :: "'a \<Rightarrow> 'a db_response" where
  "found r = \<lparr>data = Some r, error = None\<rparr>"

definition single :: "'a list \<Rightarrow> 'a db_response" where
  \<comment> \<open>\<^verbatim>\<open>.single()\<close>: exactly one row, or the error PGRST116\<close>
  "single rows = (case rows of [r] \<Rightarrow> found r | _ \<Rightarrow> \<lparr>data = None, error = Some PGRST116\<rparr>)"

fun eq_id :: "int option \<Rightarrow> int \<Rightarrow> bool" where
  \<comment> \<open>\<^verbatim>\<open>.eq('id', parseInt(id))\<close>: \<^verbatim>\<open>NaN\<close> (\<open>None\<close>) selects no row\<close>
  "eq_id None i = False"
| "eq_id (Some n) i = (n = i)"

definition fresh_id :: "int list \<Rightarrow> int" where
  "fresh_id ids = fold max ids 0 + 1"

definition users_by_wallet :: "bool \<Rightarrow> string \<Rightarrow> world \<Rightarrow> user_row db_response \<times> world" where
  \<comment> \<open>\<^verbatim>\<open>from('users').select('id').eq('wallet_address', addr).single()\<close>\<close>
  "users_by_wallet fault addr w =
     (let w' = emit (Call ''users'' ''select'') w
      in if fault then (rejected, w')
         else (single (filter (\<lambda>u. wallet_address u = addr) (users w)), w'))"

text \<open>
  Modelled from the spec: the schema of the \<^verbatim>\<open>users\<close> table is not in the source.
  The spec gives the wallet address as the unique key of a User and an upsert as
  insert-or-update keyed by it. \<^verbatim>\<open>from('users').upsert(row).select().single()\<close> writes
  the columns of \<open>row\<close>: \<open>pub = None\<close> when \<open>row\<close> has no \<^verbatim>\<open>is_public\<close>, so that a new
  row takes the column's default (\<open>is_public = None\<close>) and an existing row keeps its value.
\<close>

definition users_upsert ::
  "bool \<Rightarrow> string \<Rightarrow> jsval option \<Rightarrow> world \<Rightarrow> user_row db_response \<times> world" where
  "users_upsert fault addr pub w =
     (let w' = emit (Call ''users'' ''upsert'') w
      in if fault then (rejected, w')
         else (case filter (\<lambda>u. wallet_address u = addr) (users w) of
                 [] \<Rightarrow>
                   (let u = \<lparr>uid = fresh_id (map uid (users w)), wallet_address = addr,
                             is_public = pub\<rparr>
                    in (found u, w'\<lparr>users := users w @ [u]\<rparr>))
               | [u0] \<Rightarrow>
                   (let u = (case pub of None \<Rightarrow> u0 | Some p \<Rightarrow> u0\<lparr>is_public := Some p\<rparr>)
                    in (found u,
                        w'\<lparr>users := map (\<lambda>x. if wallet_address x = addr then u else x) (users w)\<rparr>))
               | _ \<Rightarrow> (\<lparr>data = None, error = Some PGRST116\<rparr>, w')))"

definition copy_trades_single ::
  "bool \<Rightarrow> (copy_trade_row \<Rightarrow> bool) \<Rightarrow> world \<Rightarrow> copy_trade_row db_response \<times> world" where
  \<comment> \<open>\<^verbatim>\<open>from('copy_trades').select('*')\<close>, the \<^verbatim>\<open>.eq\<close> filters \<open>p\<close>, \<^verbatim>\<open>.single()\<close>\<close>
  "copy_trades_single fault p w =
     (let w' = emit (Call ''copy_trades'' ''select'') w
      in if fault then (rejected, w') else (single (filter p (copy_trades w)), w'))"

text \<open>
  \<^verbatim>\<open>from('copy_trades').update(f)\<close>, the \<^verbatim>\<open>.eq\<close> filters \<open>p\<close>,
  \<^verbatim>\<open>.select().single()\<close>: the store writes only when exactly one row is selected, and
  answers PGRST116 otherwise.
\<close>

definition copy_trades_update ::
  "bool \<Rightarrow> (copy_trade_row \<Rightarrow> bool) \<Rightarrow> (copy_trade_row \<Rightarrow> copy_trade_row) \<Rightarrow> world
     \<Rightarrow> copy_trade_row db_response \<times> world" where
  "copy_trades_update fault p f w =
     (let w' = emit (Call ''copy_trades'' ''update'') w
      in if fault then (rejected, w')
         else (case filter p (copy_trades w) of
                 [r] \<Rightarrow> (found (f r),
                         w'\<lparr>copy_trades := map (\<lambda>x. if p x then f x else x) (copy_trades w)\<rparr>)
               | _ \<Rightarrow> (\<lparr>data = None, error = Some PGRST116\<rparr>, w')))"

definition wallet_of :: "user_row list \<Rightarrow> int \<Rightarrow> string option" where
  \<comment> \<open>the join \<^verbatim>\<open>users!follower_id(wallet_address)\<close>: \<open>None\<close> when no user has that id\<close>
  "wallet_of us i = map_option wallet_address (find (\<lambda>u. uid u = i) us)"

definition copy_trades_list ::
  "bool \<Rightarrow> (copy_trade_row \<Rightarrow> bool) \<Rightarrow> world
     \<Rightarrow> (copy_trade_row \<times> string option \<times> string option) list db_response \<times> world" where
  \<comment> \<open>the listing query: each row with the wallet addresses of its follower and its trader\<close>
  "copy_trades_list fault p w =
     (let w' = emit (Call ''copy_trades'' ''select'') w
      in if fault then (rejected, w')
         else (found (map (\<lambda>r. (r, wallet_of (users w) (follower_id r),
                                    wallet_of (users w) (trader_id r)))
                        (filter p (copy_trades w))), w'))"

section \<open>traders.js: GET /leaderboard\<close>

record trader_row =
  users_wallet_address :: jsval
  win_rate :: jsval
  total_trades :: jsval
  profit_loss :: jsval
  total_volume :: jsval
  trader_categories :: jsval
  last_active :: jsval

definition format_trader :: "trader_row \<Rightarrow> jsval" where
  "format_trader trader = JObj
     [(''address'', users_wallet_address trader),
      (''winRate'', win_rate trader),
      (''totalTrades'', total_trades trader),
      (''profitLoss'', profit_loss trader),
      (''totalVolume'', total_volume trader),
      (''categories'', or_else (trader_categories trader) (JArr [])),
      (''lastActive'', last_active trader)]"

definition mockTraders :: "int \<Rightarrow> jsval list" where
  "mockTraders now =
     [JObj [(''address'', JStr ''0x1234567890123456789012345678901234567890''),
            (''winRate'', JNum (157 / 2)),
            (''totalTrades'', JNum 45),
            (''profitLoss'', JNum (5003 / 4)),
            (''totalVolume'', JNum 5000),
            (''categories'', JArr [JStr ''sports'', JStr ''politics'']),
            (''lastActive'', JTime now)],
      JObj [(''address'', JStr ''0x0987654321098765432109876543210987654321''),
            (''winRate'', JNum (326 / 5)),
            (''totalTrades'', JNum 32),
            (''profitLoss'', JNum (3561 / 4)),
            (''totalVolume'', JNum 3200),
            (''categories'', JArr [JStr ''finance'', JStr ''sports'']),
            (''lastActive'', JTime now)],
      JObj [(''address'', JStr ''0x1111111111111111111111111111111111111111''),
            (''winRate'', JNum (821 / 10)),
            (''totalTrades'', JNum 28),
            (''profitLoss'', JNum (3161 / 2)),
            (''totalVolume'', JNum 4100),
            (''categories'', JArr [JStr ''politics'']),
            (''lastActive'', JTime now)]]"

definition leaderboard_body :: "int \<Rightarrow> jsval list \<Rightarrow> string \<Rightarrow> jsval" where
  "leaderboard_body now traders source = JObj
     [(''traders'', JArr traders), (''source'', JStr source), (''timestamp'', JTime now)]"

text \<open>
  \<open>live\<close> is what \<^verbatim>\<open>substreamsService.getTraderLeaderboard(category, limit)\<close> settles to:
  \<open>Inl msg\<close> when it rejects, \<open>Inr None\<close> when it resolves to no array, \<open>Inr (Some ts)\<close>
  when it resolves to an array. \<open>cached\<close> is what the query on \<^verbatim>\<open>traders\<close> resolves to;
  \<^verbatim>\<open>category\<close> and \<^verbatim>\<open>limit\<close> only shape that query. The clock is read once.
\<close>

definition get_leaderboard ::
  "int \<Rightarrow> (string + jsval list option) \<Rightarrow> trader_row list db_response \<Rightarrow> world
     \<Rightarrow> response \<times> world" where
  "get_leaderboard now live cached w =
     (let w1 = emit (Call ''substreams'' ''getTraderLeaderboard'') w;
          (traders, w2) =
            (case live of
               Inr ts \<Rightarrow> (Inr ts, w1)
             | Inl msg \<Rightarrow>
                 (let w' = emit (Call ''traders'' ''select'')
                             (emit (Console ''Substreams unavailable, using cached data:'') w1)
                  in case error cached of
                       Some e \<Rightarrow> (Inl (Thrown e), w')
                     | None \<Rightarrow>
                         (case data cached of
                            None \<Rightarrow> (Inl TypeError, w')
                          | Some rows \<Rightarrow> (Inr (Some (map format_trader rows)), w'))))
      in case traders of
           Inr (Some ts) \<Rightarrow>
             (json (leaderboard_body now ts (if length ts > 0 then ''substreams'' else ''cache'')), w2)
         | _ \<Rightarrow>
             (json (leaderboard_body now (mockTraders now) ''mock''),
              emit (Console ''Leaderboard error:'') w2))"

section \<open>markets.js: GET /active\<close>

definition demoMarkets :: "int \<Rightarrow> jsval list" where
  "demoMarkets now =
     [JObj [(''id'', JNum 0),
            (''question'', JStr ''Will Lakers win their next game?''),
            (''category'', JStr ''sports''),
            (''endTime'', JTime (now + 3600000)),
            (''totalYes'', JStr ''150.5''),
            (''totalNo'', JStr ''89.2''),
            (''resolved'', JBool False),
            (''created_at'', JTime now)],
      JObj [(''id'', JNum 1),
            (''question'', JStr ''Will Bitcoin hit $100k by end of month?''),
            (''category'', JStr ''finance''),
            (''endTime'', JTime (now + 86400000 * 7)),
            (''totalYes'', JStr ''89.7''),
            (''totalNo'', JStr ''110.3''),
            (''resolved'', JBool False),
            (''created_at'', JTime now)],
      JObj [(''id'', JNum 2),
            (''question'', JStr ''Will it rain tomorrow in New York?''),
            (''category'', JStr ''weather''),
            (''endTime'', JTime (now + 86400000)),
            (''totalYes'', JStr ''45.2''),
            (''totalNo'', JStr ''67.8''),
            (''resolved'', JBool False),
            (''created_at'', JTime now)]]"

definition markets_body :: "int \<Rightarrow> jsval list \<Rightarrow> string \<Rightarrow> jsval" where
  "markets_body now markets source = JObj
     [(''markets'', JArr markets), (''source'', JStr source), (''timestamp'', JTime now)]"

text \<open>
  \<open>live\<close> is what \<^verbatim>\<open>blockchainService.getActiveMarkets()\<close> settles to (\<open>Inr None\<close>: it
  resolves to \<^verbatim>\<open>null\<close> or \<^verbatim>\<open>undefined\<close>); \<open>cached\<close> is what the query on
  \<^verbatim>\<open>markets\<close> resolves to. The source tag is computed after the demo markets have been
  put in place.
\<close>

definition get_active ::
  "int \<Rightarrow> (string + jsval list option) \<Rightarrow> jsval list db_response \<Rightarrow> world
     \<Rightarrow> response \<times> world" where
  "get_active now live cached w =
     (let w1 = emit (Call ''blockchain'' ''getActiveMarkets'') w;
          (fetched, w2) =
            (case live of
               Inr ms \<Rightarrow> (Inr ms, w1)
             | Inl msg \<Rightarrow>
                 (let w' = emit (Call ''markets'' ''select'')
                             (emit (Console ''Blockchain unavailable, using cached data:'') w1)
                  in case error cached of
                       Some e \<Rightarrow> (Inl (Thrown e), w')
                     | None \<Rightarrow> (Inr (data cached), w')))
      in case fetched of
           Inl e \<Rightarrow>
             (fail 500 ''Failed to fetch active markets'',
              emit (Console ''Active markets error:'') w2)
         | Inr ms \<Rightarrow>
             (let markets = (case ms of
                               None \<Rightarrow> demoMarkets now
                             | Some xs \<Rightarrow> if length xs = 0 then demoMarkets now else xs)
              in (json (markets_body now markets
                          (if length markets > 0 then ''blockchain'' else ''demo'')), w2)))"

section \<open>traders.js: POST /register\<close>

text \<open>
  \<open>user_fault\<close> is the fate of the upsert into \<^verbatim>\<open>users\<close>; \<open>trader_upsert\<close> is what
  the upsert into \<^verbatim>\<open>traders\<close> resolves to.
\<close>

definition post_register ::
  "bool \<Rightarrow> jsval db_response \<Rightarrow> (string \<times> jsval) list \<Rightarrow> world \<Rightarrow> response \<times> world" where
  "post_register user_fault trader_upsert reqbody w =
     (let walletAddress = field reqbody ''walletAddress'';
          isPublic = default_to (field reqbody ''isPublic'') (JBool True);
          cats = default_to (field reqbody ''categories'') (JArr [])
      in if \<not> truthy walletAddress then (fail 400 ''Wallet address required'', w)
         else case toLowerCase walletAddress of
           None \<Rightarrow>
             (fail 500 ''Failed to register trader'', emit (Console ''Trader registration error:'') w)
         | Some addr \<Rightarrow>
             (let (ur, w1) = users_upsert user_fault addr (Some isPublic) w
              in if error ur \<noteq> None
                 then (fail 500 ''Database error'', emit (Console ''User upsert error:'') w1)
                 else case data ur of
                   None \<Rightarrow>
                     (fail 500 ''Failed to register trader'',
                      emit (Console ''Trader registration error:'') w1)
                 | Some user \<Rightarrow>
                     (let w2 = emit (Call ''traders'' ''upsert'') w1
                      in if error trader_upsert \<noteq> None
                         then (fail 500 ''Database error'',
                               emit (Console ''Trader upsert error:'') w2)
                         else case data trader_upsert of
                           None \<Rightarrow>
                             (fail 500 ''Failed to register trader'',
                              emit (Console ''Trader registration error:'') w2)
                         | Some trader \<Rightarrow>
                             (json (JObj
                                [(''message'', JStr ''Trader registered successfully''),
                                 (''trader'', JObj
                                    [(''id'', jsprop trader ''id''),
                                     (''address'', JStr addr),
                                     (''isPublic'', isPublic),
                                     (''categories'', cats)])]), w2))))"

section \<open>markets.js: POST /create\<close>

definition trunc :: "rat \<Rightarrow> int" where
  "trunc t = (if 0 \<le> t then \<lfloor>t\<rfloor> else \<lceil>t\<rceil>)"

definition end_time :: "int \<Rightarrow> rat option \<Rightarrow> int option" where
  \<comment> \<open>\<^verbatim>\<open>new Date(Date.now() + duration * 1000)\<close>, \<open>d\<close> the number \<^verbatim>\<open>duration\<close> converts to
     (\<open>None\<close>: \<^verbatim>\<open>NaN\<close> or infinite). \<open>None\<close> is an Invalid Date: no number, or an instant
     beyond the 8.64e15 ms of a Date. The sum is exact here, not rounded to a double.\<close>
  "end_time now d =
     (case d of
        None \<Rightarrow> None
      | Some x \<Rightarrow>
          (let t = of_int now + x * 1000
           in if \<bar>t\<bar> \<le> 8640000000000000 then Some (trunc t) else None))"

text \<open>
  \<open>toNumber\<close> is JavaScript's conversion of a value to a number (\<open>None\<close>: \<^verbatim>\<open>NaN\<close> or
  infinite); \<open>chain\<close> is what \<^verbatim>\<open>blockchainService.createMarket(question, duration)\<close> settles
  to; \<open>stored\<close> is what the insert into \<^verbatim>\<open>markets\<close> resolves to. The fallback object of
  the response is built only when the insert gave no row, and
  \<^verbatim>\<open>endTime.toISOString()\<close> throws a RangeError on an Invalid Date. Before the insert,
  \<^verbatim>\<open>duration * 1000\<close> throws a TypeError on a duration that converts to no primitive, and
  \<^verbatim>\<open>user.id\<close> on a missing row; both end in the same \<^verbatim>\<open>catch\<close>.
\<close>

definition post_create ::
  "(jsval \<Rightarrow> rat option) \<Rightarrow> int \<Rightarrow> bool \<Rightarrow> (string + jsval) \<Rightarrow> jsval db_response
     \<Rightarrow> (string \<times> jsval) list \<Rightarrow> world \<Rightarrow> response \<times> world" where
  "post_create toNumber now user_fault chain stored reqbody w =
     (let walletAddress = field reqbody ''walletAddress'';
          question = field reqbody ''question'';
          category = field reqbody ''category'';
          duration = field reqbody ''duration''
      in if \<not> truthy walletAddress \<or> \<not> truthy question \<or> \<not> truthy category \<or> \<not> truthy duration
         then (fail 400 ''Missing required fields'', w)
         else case toLowerCase walletAddress of
           None \<Rightarrow> (fail 500 ''Failed to create market'', emit (Console ''Market creation error:'') w)
         | Some addr \<Rightarrow>
             (let (ur, w1) = users_upsert user_fault addr None w
              in if error ur \<noteq> None
                 then (fail 500 ''Database error'', emit (Console ''User creation error:'') w1)
                 else
                   (let w2 = emit (Call ''blockchain'' ''createMarket'') w1
                    in case chain of
                         Inl msg \<Rightarrow>
                           (fail 500 ''Failed to create market on blockchain'',
                            emit (Console ''Blockchain market creation failed:'') w2)
                       | Inr marketId \<Rightarrow>
                           (if unconvertible duration \<or> data ur = None
                            then (fail 500 ''Failed to create market'',
                                  emit (Console ''Market creation error:'') w2)
                            else
                                (let endTime = end_time now (toNumber duration);
                                     w3 = emit (Call ''markets'' ''insert'') w2;
                                     w4 = (if error stored \<noteq> None
                                           then emit (Console ''Database market creation failed:'') w3
                                           else w3);
                                     market = nullable (data stored)
                                 in if truthy market
                                    then (json (JObj [(''marketId'', marketId), (''market'', market)]), w4)
                                    else case endTime of
                                      None \<Rightarrow>
                                        (fail 500 ''Failed to create market'',
                                         emit (Console ''Market creation error:'') w4)
                                    | Some t \<Rightarrow>
                                        (json (JObj
                                           [(''marketId'', marketId),
                                            (''market'', JObj
                                               [(''id'', marketId),
                                                (''question'', question),
                                                (''category'', category),
                                                (''endTime'', JTime t),
                                                (''totalYes'', JStr ''0''),
                                                (''totalNo'', JStr ''0''),
                                                (''resolved'', JBool False)])]), w4))))))"

section \<open>markets.js: POST /:id/bet\<close>

text \<open>
  \<open>pid\<close> is the value of \<^verbatim>\<open>parseInt(id)\<close> (\<open>None\<close>: \<^verbatim>\<open>NaN\<close>); \<open>chain\<close> is what
  \<^verbatim>\<open>blockchainService.placeBet(parseInt(id), prediction, amount)\<close> settles to; \<open>stored\<close> is
  what the insert into \<^verbatim>\<open>trades\<close> resolves to.
\<close>

definition post_bet ::
  "int \<Rightarrow> bool \<Rightarrow> (string + jsval) \<Rightarrow> jsval db_response \<Rightarrow> int option
     \<Rightarrow> (string \<times> jsval) list \<Rightarrow> world \<Rightarrow> response \<times> world" where
  "post_bet now user_fault chain stored pid reqbody w =
     (let walletAddress = field reqbody ''walletAddress'';
          prediction = field reqbody ''prediction'';
          bet_amount = field reqbody ''amount''
      in if \<not> truthy walletAddress \<or> \<not> is_boolean prediction \<or> \<not> truthy bet_amount
         then (fail 400 ''Invalid bet parameters'', w)
         else case toLowerCase walletAddress of
           None \<Rightarrow> (fail 500 ''Failed to place bet'', emit (Console ''Bet placement error:'') w)
         | Some addr \<Rightarrow>
             (let (ur, w1) = users_upsert user_fault addr None w
              in if error ur \<noteq> None
                 then (fail 500 ''Database error'', emit (Console ''User creation error:'') w1)
                 else
                   (let w2 = emit (Call ''blockchain'' ''placeBet'') w1
                    in case chain of
                         Inl msg \<Rightarrow>
                           (fail 500 ''Failed to place bet on blockchain'',
                            emit (Console ''Blockchain bet failed:'') w2)
                       | Inr txHash \<Rightarrow>
                           (case data ur of
                              None \<Rightarrow>
                                (fail 500 ''Failed to place bet'',
                                 emit (Console ''Bet placement error:'') w2)
                            | Some user \<Rightarrow>
                                (let w3 = emit (Call ''trades'' ''insert'') w2;
                                     w4 = (if error stored \<noteq> None
                                           then emit (Console ''Database trade recording failed:'') w3
                                           else w3);
                                     trade = nullable (data stored)
                                 in (json (JObj
                                       [(''txHash'', txHash),
                                        (''trade'', or_else trade (JObj
                                           [(''id'', JNum (of_int now)),
                                            (''user_id'', JNum (of_int (uid user))),
                                            (''market_id'', js_int pid),
                                            (''prediction'', prediction),
                                            (''amount'', bet_amount),
                                            (''timestamp'', JTime now)]))]), w4))))))"

section \<open>copyTrades.js: GET /user/:address, PUT /:id, DELETE /:id\<close>

definition format_copy_trade :: "copy_trade_row \<times> string option \<times> string option \<Rightarrow> jsval" where
  "format_copy_trade x =
     (case x of (trade, follower, trader) \<Rightarrow> JObj
        [(''id'', JNum (of_int (ctid trade))),
         (''traderAddress'', optional trader),
         (''followerAddress'', optional follower),
         (''amount'', amount trade),
         (''categories'', or_else (categories trade) (JArr [])),
         (''maxTrades'', max_trades trade),
         (''active'', active trade),
         (''createdAt'', created_at trade),
         (''executedTrades'', or_else (executed_trades trade) (JNum 0))])"

text \<open>
  \<open>address\<close> is the route parameter, a string; \<open>type\<close> is the query parameter. The first
  \<^verbatim>\<open>query\<close> of the source is built and never awaited, so it sends nothing.
\<close>

definition get_user_copy_trades ::
  "bool \<Rightarrow> bool \<Rightarrow> string \<Rightarrow> string option \<Rightarrow> world \<Rightarrow> response \<times> world" where
  "get_user_copy_trades user_fault list_fault address type w =
     (let (ur, w1) = users_by_wallet user_fault (lower address) w
      in case data ur of
           None \<Rightarrow> (json (JObj [(''copyTrades'', JArr [])]), w1)
         | Some user \<Rightarrow>
             (let (lr, w2) =
                    copy_trades_list list_fault
                      (if type = Some ''followers''
                       then (\<lambda>r. trader_id r = uid user \<and> active r = JBool True)
                       else (\<lambda>r. follower_id r = uid user \<and> active r = JBool True)) w1
              in if error lr \<noteq> None
                 then (fail 500 ''Failed to fetch copy trades'',
                       emit (Console ''Copy trades fetch error:'') w2)
                 else (json (JObj
                         [(''copyTrades'',
                           JArr (map format_copy_trade
                                   (case data lr of None \<Rightarrow> [] | Some rows \<Rightarrow> rows)))]), w2)))"

text \<open>
  \<open>parseFloat\<close> is JavaScript's \<^verbatim>\<open>parseFloat\<close>, \<open>now\<close> the clock, \<open>pid\<close> the value of
  \<^verbatim>\<open>parseInt(id)\<close>. The ownership is checked by the second query; the update itself selects
  by \<^verbatim>\<open>id\<close> alone. \<^verbatim>\<open>parseFloat(amount)\<close> throws a TypeError on an amount that converts
  to no primitive, before the update is sent.
\<close>

definition put_copy_trade ::
  "(jsval \<Rightarrow> jsval) \<Rightarrow> int \<Rightarrow> bool \<Rightarrow> bool \<Rightarrow> bool \<Rightarrow> int option
     \<Rightarrow> (string \<times> jsval) list \<Rightarrow> world \<Rightarrow> response \<times> world" where
  "put_copy_trade parseFloat now user_fault fetch_fault update_fault pid reqbody w =
     (let walletAddress = field reqbody ''walletAddress'';
          new_amount = field reqbody ''amount'';
          new_categories = field reqbody ''categories'';
          maxTrades = field reqbody ''maxTrades'';
          new_active = field reqbody ''active''
      in if \<not> truthy walletAddress then (fail 400 ''Wallet address required'', w)
         else case toLowerCase walletAddress of
           None \<Rightarrow>
             (fail 500 ''Failed to update copy trade'', emit (Console ''Copy trade update error:'') w)
         | Some addr \<Rightarrow>
             (let (ur, w1) = users_by_wallet user_fault addr w
              in case (error ur, data ur) of
                   (None, Some user) \<Rightarrow>
                     (let (er, w2) =
                            copy_trades_single fetch_fault
                              (\<lambda>r. eq_id pid (ctid r) \<and> follower_id r = uid user) w1
                      in case (error er, data er) of
                           (None, Some existing) \<Rightarrow>
                             if new_amount \<noteq> JUndefined \<and> unconvertible new_amount
                             then (fail 500 ''Failed to update copy trade'',
                                   emit (Console ''Copy trade update error:'') w2)
                             else
                             (let updates = (\<lambda>r. r
                                    \<lparr>amount := (if new_amount \<noteq> JUndefined
                                                 then parseFloat new_amount else amount r),
                                     categories := (if new_categories \<noteq> JUndefined
                                                     then new_categories else categories r),
                                     max_trades := (if maxTrades \<noteq> JUndefined
                                                     then maxTrades else max_trades r),
                                     active := (if new_active \<noteq> JUndefined
                                                 then new_active else active r),
                                     updated_at := JTime now\<rparr>);
                                  (upr, w3) =
                                    copy_trades_update update_fault (\<lambda>r. eq_id pid (ctid r)) updates w2
                              in if error upr \<noteq> None
                                 then (fail 500 ''Failed to update copy trade'',
                                       emit (Console ''Copy trade update error:'') w3)
                                 else case data upr of
                                   None \<Rightarrow>
                                     (fail 500 ''Failed to update copy trade'',
                                      emit (Console ''Copy trade update error:'') w3)
                                 | Some updated \<Rightarrow>
                                     (json (JObj
                                        [(''copyTrade'', JObj
                                           [(''id'', JNum (of_int (ctid updated))),
                                            (''amount'', amount updated),
                                            (''categories'', categories updated),
                                            (''maxTrades'', max_trades updated),
                                            (''active'', active updated),
                                            (''updatedAt'', updated_at updated)])]), w3))
                         | _ \<Rightarrow> (fail 404 ''Copy trade not found'', w2))
                 | _ \<Rightarrow> (fail 404 ''User not found'', w1)))"

definition delete_copy_trade ::
  "int \<Rightarrow> bool \<Rightarrow> bool \<Rightarrow> int option \<Rightarrow> (string \<times> jsval) list \<Rightarrow> world
     \<Rightarrow> response \<times> world" where
  "delete_copy_trade now user_fault update_fault pid reqbody w =
     (let walletAddress = field reqbody ''walletAddress''
      in if \<not> truthy walletAddress then (fail 400 ''Wallet address required'', w)
         else case toLowerCase walletAddress of
           None \<Rightarrow>
             (fail 500 ''Failed to stop copy trading'',
              emit (Console ''Copy trade deletion error:'') w)
         | Some addr \<Rightarrow>
             (let (ur, w1) = users_by_wallet user_fault addr w
              in case (error ur, data ur) of
                   (None, Some user) \<Rightarrow>
                     (let (upr, w2) =
                            copy_trades_update update_fault
                              (\<lambda>r. eq_id pid (ctid r) \<and> follower_id r = uid user)
                              (\<lambda>r. r\<lparr>active := JBool False, updated_at := JTime now\<rparr>) w1
                      in case (error upr, data upr) of
                           (None, Some updated) \<Rightarrow>
                             (json (JObj
                                [(''message'', JStr ''Copy trading stopped successfully''),
                                 (''copyTradeId'', JNum (of_int (ctid updated)))]), w2)
                         | _ \<Rightarrow> (fail 404 ''Copy trade not found'', w2))
                 | _ \<Rightarrow> (fail 404 ''User not found'', w1)))"

section \<open>x402.js: POST /agent/create, GET /agents/:walletAddress, POST /webhook/execution\<close>

record agent_result =
  agentAddress :: jsval
  txHash :: jsval

text \<open>
  \<open>x402\<close> is what \<^verbatim>\<open>x402Service.createCopyTradingAgent\<close> settles to, \<open>stored\<close> what the
  insert into \<^verbatim>\<open>x402_agents\<close> resolves to; \<open>rnd_address\<close> and \<open>rnd_tx\<close> are the digits
  that \<^verbatim>\<open>Math.random().toString(16).slice(2, n)\<close> gives for the demo agent. Reading
  \<^verbatim>\<open>follower.id\<close> or \<^verbatim>\<open>trader.id\<close> happens inside the inner \<^verbatim>\<open>try\<close>, and so do
  \<^verbatim>\<open>parseFloat(maxPerTrade)\<close> and \<^verbatim>\<open>parseFloat(totalLimit)\<close>, after the service has been
  called and before the insert is sent: a missing row, or a limit that converts to no
  primitive, ends in the demo agent as a rejection of the service does. \<open>created\<close> is the
  result the inner \<^verbatim>\<open>try\<close> reaches the insert with, \<open>None\<close> when it threw before.
\<close>

definition post_agent_create ::
  "int \<Rightarrow> string \<Rightarrow> string \<Rightarrow> bool \<Rightarrow> bool \<Rightarrow> (string + agent_result) \<Rightarrow> jsval db_response
     \<Rightarrow> (string \<times> jsval) list \<Rightarrow> world \<Rightarrow> response \<times> world" where
  "post_agent_create now rnd_address rnd_tx follower_fault trader_fault x402 stored reqbody w =
     (let followerAddress = field reqbody ''followerAddress'';
          traderAddress = field reqbody ''traderAddress'';
          maxPerTrade = field reqbody ''maxPerTrade'';
          totalLimit = field reqbody ''totalLimit'';
          cats = field reqbody ''categories''
      in if \<not> truthy followerAddress \<or> \<not> truthy traderAddress \<or> \<not> truthy maxPerTrade
            \<or> \<not> truthy totalLimit
         then (fail 400 ''Missing required fields'', w)
         else case toLowerCase followerAddress of
           None \<Rightarrow>
             (fail 500 ''Failed to create copy trading agent'',
              emit (Console ''Agent creation error:'') w)
         | Some fa \<Rightarrow>
             (let (fr, w1) = users_upsert follower_fault fa None w
              in case toLowerCase traderAddress of
                   None \<Rightarrow>
                     (fail 500 ''Failed to create copy trading agent'',
                      emit (Console ''Agent creation error:'') w1)
                 | Some ta \<Rightarrow>
                     (let (tr, w2) = users_upsert trader_fault ta (Some (JBool True)) w1
                      in if error fr \<noteq> None \<or> error tr \<noteq> None
                         then (fail 500 ''Database error'', emit (Console ''User creation error:'') w2)
                         else
                           (let w3 = emit (Call ''x402'' ''createCopyTradingAgent'') w2;
                                created =
                                  (case x402 of
                                     Inl msg \<Rightarrow> None
                                   | Inr agentResult \<Rightarrow>
                                       if data fr = None \<or> data tr = None
                                          \<or> unconvertible maxPerTrade \<or> unconvertible totalLimit
                                       then None else Some agentResult)
                            in case created of
                                 Some agentResult \<Rightarrow>
                                   (let w4 = emit (Call ''x402_agents'' ''insert'') w3;
                                        w5 = (if error stored \<noteq> None
                                              then emit (Console ''Agent DB storage error:'') w4
                                              else w4);
                                        record_id = (case data stored of
                                                       None \<Rightarrow> JUndefined
                                                     | Some agentRecord \<Rightarrow> jsprop agentRecord ''id'')
                                    in (json (JObj
                                          [(''agent'', JObj
                                              [(''id'', or_else record_id (JNum (of_int now))),
                                               (''agentAddress'', agentAddress agentResult),
                                               (''traderAddress'', traderAddress),
                                               (''followerAddress'', followerAddress),
                                               (''maxPerTrade'', maxPerTrade),
                                               (''totalLimit'', totalLimit),
                                               (''categories'', or_else cats (JArr [])),
                                               (''active'', JBool True),
                                               (''txHash'', txHash agentResult)]),
                                           (''message'',
                                            JStr ''x402 copy trading agent created successfully'')]),
                                        w5))
                               | None \<Rightarrow>
                                   (json (JObj
                                      [(''agent'', JObj
                                          [(''id'', JNum (of_int now)),
                                           (''agentAddress'', JStr (''0x'' @ rnd_address)),
                                           (''traderAddress'', traderAddress),
                                           (''followerAddress'', followerAddress),
                                           (''maxPerTrade'', maxPerTrade),
                                           (''totalLimit'', totalLimit),
                                           (''categories'', or_else cats (JArr [])),
                                           (''active'', JBool True),
                                           (''txHash'', JStr (''0x'' @ rnd_tx)),
                                           (''demo'', JBool True)]),
                                       (''message'',
                                        JStr ''Demo agent created (x402 service unavailable)''),
                                       (''warning'',
                                        JStr ''This is a demo agent - x402 service integration pending'')]),
                                    emit (Console ''x402 agent creation failed:'') w3)))))"

record agent_row =
  agent_id :: jsval
  agent_address :: jsval
  agent_trader :: "jsval option"
  max_per_trade :: jsval
  total_limit :: jsval
  agent_categories :: jsval
  agent_active :: jsval
  agent_created_at :: jsval
  tx_hash :: jsval

record agent_status =
  status_active :: jsval
  balance :: jsval
  executedTrades :: jsval

text \<open>
  One agent of the listing: \<open>agent_trader\<close> is the wallet address of the joined trader,
  \<open>None\<close> when the join gave \<^verbatim>\<open>null\<close>, and then \<^verbatim>\<open>agent.trader.wallet_address\<close> is a
  TypeError. \<open>status_of\<close> is what \<^verbatim>\<open>x402Service.getAgentStatus\<close> settles to for an
  agent address.
\<close>

definition agent_with_status :: "(jsval \<Rightarrow> string + agent_status) \<Rightarrow> agent_row \<Rightarrow> jsval option" where
  "agent_with_status status_of agent =
     (let st = (case status_of (agent_address agent) of
                  Inr s \<Rightarrow> s
                | Inl msg \<Rightarrow> \<lparr>status_active = agent_active agent, balance = JStr ''0'',
                               executedTrades = JNum 0\<rparr>)
      in case agent_trader agent of
           None \<Rightarrow> None
         | Some trader_wallet \<Rightarrow> Some (JObj
             [(''id'', agent_id agent),
              (''agentAddress'', agent_address agent),
              (''traderAddress'', trader_wallet),
              (''maxPerTrade'', max_per_trade agent),
              (''totalLimit'', total_limit agent),
              (''categories'', or_else (agent_categories agent) (JArr [])),
              (''active'', status_active st),
              (''balance'', balance st),
              (''executedTrades'', executedTrades st),
              (''createdAt'', agent_created_at agent),
              (''txHash'', tx_hash agent)]))"

definition status_events :: "(jsval \<Rightarrow> string + agent_status) \<Rightarrow> agent_row list \<Rightarrow> event list" where
  \<comment> \<open>the calls start in the order of the agents; each rejected one leaves a warning\<close>
  "status_events status_of rows =
     map (\<lambda>a. Call ''x402'' ''getAgentStatus'') rows
     @ map (\<lambda>a. Console ''Could not fetch agent status:'')
         (filter (\<lambda>a. isl (status_of (agent_address a))) rows)"

fun all_some :: "'a option list \<Rightarrow> 'a list option" where
  "all_some [] = Some []"
| "all_some (None # xs) = None"
| "all_some (Some x # xs) = (case all_some xs of None \<Rightarrow> None | Some ys \<Rightarrow> Some (x # ys))"

definition get_agents ::
  "bool \<Rightarrow> agent_row list db_response \<Rightarrow> (jsval \<Rightarrow> string + agent_status) \<Rightarrow> string \<Rightarrow> world
     \<Rightarrow> response \<times> world" where
  "get_agents user_fault agents status_of walletAddress w =
     (let (ur, w1) = users_by_wallet user_fault (lower walletAddress) w
      in case (error ur, data ur) of
           (None, Some user) \<Rightarrow>
             (let w2 = emit (Call ''x402_agents'' ''select'') w1
              in if error agents \<noteq> None
                 then (fail 500 ''Failed to fetch agents'', emit (Console ''Agents fetch error:'') w2)
                 else
                   (let rows = (case data agents of None \<Rightarrow> [] | Some rs \<Rightarrow> rs);
                        w3 = w2\<lparr>events := events w2 @ status_events status_of rows\<rparr>
                    in case all_some (map (agent_with_status status_of) rows) of
                         None \<Rightarrow>
                           (fail 500 ''Failed to fetch my agents'',
                            emit (Console ''My agents error:'') w3)
                       | Some agentsWithStatus \<Rightarrow>
                           (json (JObj [(''agents'', JArr agentsWithStatus)]), w3)))
         | _ \<Rightarrow> (json (JObj [(''agents'', JArr [])]), w1))"

text \<open>
  \<open>agent_lookup\<close> is what the query on \<^verbatim>\<open>x402_agents\<close> by \<^verbatim>\<open>agent_address\<close> resolves
  to, \<open>stored\<close> what the insert into \<^verbatim>\<open>agent_executions\<close> resolves to. Two conversions
  can throw into the outer \<^verbatim>\<open>catch\<close>: the filter \<^verbatim>\<open>.eq('agent_address', agentAddress)\<close>
  writes the value into the query string, before the query is sent; and the row of the
  insert holds \<^verbatim>\<open>new Date(executionData.timestamp)\<close>, built before the insert is sent.
\<close>

definition post_webhook_execution ::
  "jsval db_response \<Rightarrow> unit db_response \<Rightarrow> (string \<times> jsval) list \<Rightarrow> world
     \<Rightarrow> response \<times> world" where
  "post_webhook_execution agent_lookup stored reqbody w =
     (let agentAddress = field reqbody ''agentAddress'';
          executionData = field reqbody ''executionData''
      in if \<not> truthy agentAddress \<or> \<not> truthy executionData
         then (fail 400 ''Invalid webhook data'', w)
         else if unconvertible agentAddress
         then (fail 500 ''Webhook processing failed'', emit (Console ''Webhook processing error:'') w)
         else
           (let w1 = emit (Call ''x402_agents'' ''select'') w
            in if error agent_lookup \<noteq> None \<or> \<not> truthy (nullable (data agent_lookup))
               then (fail 404 ''Agent not found'', emit (Console ''Webhook for unknown agent:'') w1)
               else if unconvertible (jsprop executionData ''timestamp'')
               then (fail 500 ''Webhook processing failed'',
                     emit (Console ''Webhook processing error:'') w1)
               else
                 (let w2 = emit (Call ''agent_executions'' ''insert'') w1;
                      w3 = (if error stored \<noteq> None
                            then emit (Console ''Execution recording failed:'') w2
                            else w2)
                  in (json (JObj
                        [(''message'', JStr ''Execution recorded successfully''),
                         (''agentAddress'', agentAddress)]), w3))))"

section \<open>Reading a listing\<close>

text \<open>The ids of the entries of \<^verbatim>\<open>copyTrades\<close> in a response, empty when it has none.\<close>

definition listed_ids :: "response \<Rightarrow> jsval list" where
  "listed_ids r =
     (case jsprop (body r) ''copyTrades'' of JArr xs \<Rightarrow> map (\<lambda>x. jsprop x ''id'') xs | _ \<Rightarrow> [])"

section \<open>Sample data\<close>

text \<open>A store with two users and one copy-trade relationship, for the concrete checks.\<close>

definition plain_number :: "jsval \<Rightarrow> rat option" where
  \<comment> \<open>the conversion to a number of the values that need no parsing\<close>
  "plain_number v = (case v of JNum r \<Rightarrow> Some r | JBool b \<Rightarrow> Some (if b then 1 else 0) | JNull \<Rightarrow> Some 0 | _ \<Rightarrow> None)"

definition empty_world :: world where
  "empty_world = \<lparr>users = [], copy_trades = [], events = []\<rparr>"

definition alice :: user_row where
  "alice = \<lparr>uid = 1, wallet_address = ''0xaa'', is_public = Some (JBool True)\<rparr>"

definition bob :: user_row where
  "bob = \<lparr>uid = 2, wallet_address = ''0xbb'', is_public = None\<rparr>"

definition bob_follows_alice :: copy_trade_row where
  "bob_follows_alice = \<lparr>ctid = 5, follower_id = 2, trader_id = 1, amount = JNum 10,
     categories = JArr [JStr ''sports''], max_trades = JNull, active = JBool True,
     created_at = JTime 1700000000000, updated_at = JNull, executed_trades = JNull\<rparr>"

definition sample_world :: world where
  "sample_world = \<lparr>users = [alice, bob], copy_trades = [bob_follows_alice], events = []\<rparr>"


section \<open>Facts about the store\<close>

lemma emit_tables [simp]:
  "users (emit e w) = users w" "copy_trades (emit e w) = copy_trades w"
  "events (emit e w) = events w @ [e]"
  by (simp_all add: emit_def)


lemma lower_sample: "lower ''0xBB'' = ''0xbb''" "lower ''0xCC'' = ''0xcc''" "lower ''0xbb'' = ''0xbb''"
  by code_simp+

lemma users_by_wallet_absent:
  "\<forall>u \<in> set (users w). wallet_address u \<noteq> a \<Longrightarrow>
   users_by_wallet f a w =
     (if f then rejected else \<lparr>data = None, error = Some PGRST116\<rparr>, emit (Call ''users'' ''select'') w)"
  by (simp add: users_by_wallet_def Let_def single_def filter_empty_conv[THEN iffD2])

lemma users_by_wallet_resolved:
  "filter (\<lambda>u. wallet_address u = a) (users w) = [u] \<Longrightarrow>
   users_by_wallet f a w = (if f then rejected else found u, emit (Call ''users'' ''select'') w)"
  by (simp add: users_by_wallet_def Let_def single_def)

lemma copy_trades_single_none:
  "\<forall>r \<in> set (copy_trades w). \<not> p r \<Longrightarrow>
   copy_trades_single f p w =
     (if f then rejected else \<lparr>data = None, error = Some PGRST116\<rparr>, emit (Call ''copy_trades'' ''select'') w)"
  by (simp add: copy_trades_single_def Let_def single_def filter_empty_conv[THEN iffD2])

lemma copy_trades_update_success:
  assumes "copy_trades_update f p g w = (res, w')" and "error res = None"
  shows "\<exists>r0. filter p (copy_trades w) = [r0] \<and> data res = Some (g r0)
           \<and> copy_trades w' = map (\<lambda>x. if p x then g x else x) (copy_trades w)
           \<and> users w' = users w"
  using assms
  by (auto simp add: copy_trades_update_def Let_def rejected_def found_def
        split: if_split_asm list.split_asm)

lemma format_copy_trade_id:
  "jsprop (format_copy_trade x) ''id'' = JNum (of_int (ctid (fst x)))"
  by (simp add: format_copy_trade_def field_def split: prod.split)

lemma filter_key_distinct:
  "distinct (map f xs) \<Longrightarrow>
   filter (\<lambda>x. f x = k) xs = [] \<or> (\<exists>y. filter (\<lambda>x. f x = k) xs = [y])"
proof (induction xs)
  case Nil
  then show ?case by simp
next
  case (Cons x xs)
  show ?case
  proof (cases "f x = k")
    case True
    from Cons.prems have "f x \<notin> f ` set xs" by simp
    with True have "\<forall>y \<in> set xs. f y \<noteq> k" by blast
    then have "filter (\<lambda>x. f x = k) xs = []" by (simp add: filter_empty_conv)
    with True show ?thesis by simp
  next
    case False
    with Cons show ?thesis by simp
  qed
qed

lemma filter_map_key:
  "f u = k \<Longrightarrow>
   filter (\<lambda>x. f x = k) (map (\<lambda>x. if f x = k then u else x) xs)
     = map (\<lambda>x. u) (filter (\<lambda>x. f x = k) xs)"
  by (induction xs) auto

lemma users_upsert_keeps_key:
  assumes uniq: "distinct (map wallet_address (users w))"
  shows "distinct (map wallet_address (users (snd (users_upsert f a p w))))"
proof (cases f)
  case True
  with uniq show ?thesis by (simp add: users_upsert_def Let_def)
next
  case False
  from filter_key_distinct [OF uniq, of a]
  consider "filter (\<lambda>x. wallet_address x = a) (users w) = []"
    | u0 where "filter (\<lambda>x. wallet_address x = a) (users w) = [u0]" by blast
  then show ?thesis
  proof cases
    case 1
    then have "\<forall>x \<in> set (users w). wallet_address x \<noteq> a" by (simp add: filter_empty_conv)
    with uniq 1 False show ?thesis
      by (auto simp add: users_upsert_def Let_def)
  next
    case 2
    then have "u0 \<in> set (filter (\<lambda>x. wallet_address x = a) (users w))" by simp
    then have k: "wallet_address u0 = a" by simp
    let ?g = "\<lambda>x. if wallet_address x = a
                  then (case p of None \<Rightarrow> u0 | Some v \<Rightarrow> u0\<lparr>is_public := Some v\<rparr>) else x"
    have m: "map (wallet_address \<circ> ?g) (users w) = map wallet_address (users w)"
      using k by (simp split: option.split)
    have "users (snd (users_upsert f a p w)) = map ?g (users w)"
      using 2 False by (simp add: users_upsert_def Let_def)
    then have "map wallet_address (users (snd (users_upsert f a p w))) = map wallet_address (users w)"
      by (simp only: map_map m)
    with uniq show ?thesis by (simp only:)
  qed
qed

lemma users_upsert_writes:
  assumes uniq: "distinct (map wallet_address (users w))"
  shows "\<exists>u. filter (\<lambda>x. wallet_address x = a) (users (snd (users_upsert False a (Some v) w))) = [u]
           \<and> is_public u = Some v
           \<and> error (fst (users_upsert False a (Some v) w)) = None"
proof -
  from filter_key_distinct [OF uniq, of a]
  consider "filter (\<lambda>x. wallet_address x = a) (users w) = []"
    | u0 where "filter (\<lambda>x. wallet_address x = a) (users w) = [u0]" by blast
  then show ?thesis
  proof cases
    case 1
    then show ?thesis by (simp add: users_upsert_def Let_def found_def)
  next
    case 2
    then have "u0 \<in> set (filter (\<lambda>x. wallet_address x = a) (users w))" by simp
    then have k: "wallet_address u0 = a" by simp
    let ?u = "u0\<lparr>is_public := Some v\<rparr>"
    have "wallet_address ?u = a" using k by simp
    then have "filter (\<lambda>x. wallet_address x = a)
            (map (\<lambda>x. if wallet_address x = a then ?u else x) (users w))
          = map (\<lambda>x. ?u) (filter (\<lambda>x. wallet_address x = a) (users w))"
      by (rule filter_map_key)
    with 2 show ?thesis by (simp add: users_upsert_def Let_def found_def)
  qed
qed

lemma users_upsert_data:
  "error (fst (users_upsert f a p w)) = None \<Longrightarrow> \<exists>u. data (fst (users_upsert f a p w)) = Some u"
  by (auto simp add: users_upsert_def Let_def rejected_def found_def split: list.splits if_splits)

section \<open>The fallback of the read handlers\<close>

text \<open>
  C1, as stated, fails: with the live source rejecting and the store answering an empty
  trader set without error, the handler answers the empty list tagged \<^verbatim>\<open>cache\<close>. The
  \<^verbatim>\<open>catch\<close> that holds the mock traders is reached only by a throw.
\<close>

theorem leaderboard_empty_store_counterexample:
  "\<not> (jsprop (body (fst (get_leaderboard 0 (Inl ''unreachable'') \<lparr>data = Some [], error = None\<rparr> empty_world))) ''traders'' = JArr (mockTraders 0)
      \<and> jsprop (body (fst (get_leaderboard 0 (Inl ''unreachable'') \<lparr>data = Some [], error = None\<rparr> empty_world))) ''source'' = JStr ''mock'')"
  by (simp add: get_leaderboard_def json_def leaderboard_body_def field_def)

text \<open>
  C1, amended: when the live source rejects and the store query fails with an error, the
  response is exactly the fixed list of three mock traders, tagged \<^verbatim>\<open>mock\<close>; when the
  store answers an empty trader set without error, the response carries the empty list,
  tagged \<^verbatim>\<open>cache\<close>.
\<close>

theorem leaderboard_mock_on_store_error:
  "fst (get_leaderboard now (Inl msg) \<lparr>data = d, error = Some e\<rparr> w)
     = \<lparr>status = 200, body = leaderboard_body now (mockTraders now) ''mock''\<rparr>
   \<and> length (mockTraders now) = 3
   \<and> fst (get_leaderboard now (Inl msg) \<lparr>data = Some [], error = None\<rparr> w)
     = \<lparr>status = 200, body = leaderboard_body now [] ''cache''\<rparr>"
  by (simp add: get_leaderboard_def json_def mockTraders_def)

theorem leaderboard_mock_on_store_error_witness:
  "jsprop (body (fst (get_leaderboard 0 (Inl ''unreachable'') \<lparr>data = None, error = Some Rejected\<rparr> empty_world))) ''source'' = JStr ''mock''
   \<and> jsprop (body (fst (get_leaderboard 0 (Inl ''unreachable'') \<lparr>data = Some [], error = None\<rparr> empty_world))) ''traders'' = JArr []"
  using leaderboard_mock_on_store_error [of 0 "''unreachable''" None Rejected empty_world]
  by (simp add: leaderboard_body_def field_def)

text \<open>
  C2: with the live source rejecting and the store answering an empty market set, the
  response carries the fixed list of three demo markets, and its source tag is
  \<^verbatim>\<open>blockchain\<close>: the tag is computed from the list after the demo markets have replaced
  the empty one, so its \<^verbatim>\<open>demo\<close> branch is never taken.
\<close>

theorem active_demo_list_tagged_blockchain:
  "fst (get_active now (Inl msg) \<lparr>data = Some [], error = None\<rparr> w)
     = \<lparr>status = 200, body = markets_body now (demoMarkets now) ''blockchain''\<rparr>
   \<and> length (demoMarkets now) = 3"
  by (simp add: get_active_def json_def demoMarkets_def)

theorem active_demo_list_tagged_blockchain_witness:
  "jsprop (body (fst (get_active 0 (Inl ''unreachable'') \<lparr>data = Some [], error = None\<rparr> empty_world))) ''source'' = JStr ''blockchain''"
  using active_demo_list_tagged_blockchain [of 0 "''unreachable''" empty_world]
  by (simp add: markets_body_def field_def)

text \<open>
  C9: a response of GET /active that is not a 500 carries a non-empty markets array; and
  when the live source gives nothing (it rejects, or resolves to nothing or to an empty
  array) and the store gives nothing (no rows, without error), the array is the fixed demo
  list.
\<close>

theorem active_markets_never_empty:
  "(status (fst (get_active now live cached w)) \<noteq> 500 \<longrightarrow>
      (\<exists>ms. jsprop (body (fst (get_active now live cached w))) ''markets'' = JArr ms \<and> ms \<noteq> []))
   \<and> ((live = Inl msg \<or> live = Inr None \<or> live = Inr (Some []))
        \<and> error cached = None \<and> (data cached = None \<or> data cached = Some []) \<longrightarrow>
      jsprop (body (fst (get_active now live cached w))) ''markets'' = JArr (demoMarkets now))"
  by (auto simp add: get_active_def Let_def json_def fail_def markets_body_def demoMarkets_def
        field_def split: sum.splits option.splits)

theorem active_markets_never_empty_witness:
  "status (fst (get_active 0 (Inr (Some [])) \<lparr>data = Some [], error = None\<rparr> empty_world)) \<noteq> 500
   \<and> jsprop (body (fst (get_active 0 (Inr (Some [])) \<lparr>data = Some [], error = None\<rparr> empty_world))) ''markets''
       = JArr (demoMarkets 0)
   \<and> demoMarkets 0 \<noteq> []"
  using active_markets_never_empty [of 0 "Inr (Some [])" "\<lparr>data = Some [], error = None\<rparr>" empty_world]
  by (simp add: get_active_def json_def demoMarkets_def)


section \<open>Validation, ownership and unknown wallets\<close>

text \<open>
  C5: a bet whose \<^verbatim>\<open>prediction\<close> is not a boolean is answered 400, and the world is
  left as it was: no event is recorded, so neither the upsert into \<^verbatim>\<open>users\<close> nor
  \<^verbatim>\<open>placeBet\<close> was called.
\<close>

theorem bet_non_boolean_prediction_rejected:
  assumes "\<not> is_boolean (field reqbody ''prediction'')"
  shows "post_bet now user_fault chain stored pid reqbody w =
           (\<lparr>status = 400, body = JObj [(''error'', JStr ''Invalid bet parameters'')]\<rparr>, w)"
  using assms by (simp add: post_bet_def fail_def)

theorem bet_non_boolean_prediction_rejected_witness:
  "status (fst (post_bet 0 False (Inr (JStr ''0xfeed'')) \<lparr>data = None, error = None\<rparr> (Some 3)
      [(''walletAddress'', JStr ''0xbb''), (''prediction'', JStr ''true''), (''amount'', JStr ''5'')]
      sample_world)) = 400
   \<and> events (snd (post_bet 0 False (Inr (JStr ''0xfeed'')) \<lparr>data = None, error = None\<rparr> (Some 3)
      [(''walletAddress'', JStr ''0xbb''), (''prediction'', JStr ''true''), (''amount'', JStr ''5'')]
      sample_world)) = []"
  using bet_non_boolean_prediction_rejected [of
      "[(''walletAddress'', JStr ''0xbb''), (''prediction'', JStr ''true''), (''amount'', JStr ''5'')]"
      0 False "Inr (JStr ''0xfeed'')" "\<lparr>data = None, error = None\<rparr>" "Some 3" sample_world]
  by (simp add: field_def sample_world_def)

text \<open>An accepted bet, for comparison: the calls are recorded in order.\<close>

lemma bet_accepted_attempts_the_calls:
  "events (snd (post_bet 0 False (Inr (JStr ''0xfeed'')) \<lparr>data = None, error = Some Rejected\<rparr> (Some 3)
      [(''walletAddress'', JStr ''0xbb''), (''prediction'', JBool True), (''amount'', JStr ''5'')]
      sample_world))
   = [Call ''users'' ''upsert'', Call ''blockchain'' ''placeBet'', Call ''trades'' ''insert'',
      Console ''Database trade recording failed:'']"
  by (simp add: post_bet_def field_def toLowerCase_def lower_sample users_upsert_def
        sample_world_def alice_def bob_def found_def Let_def emit_def)

text \<open>
  C8: when no user has the (lowercased) wallet address, GET /user/:address and
  GET /agents/:walletAddress answer 200 with an empty collection, whatever the store calls
  do.
\<close>

theorem unknown_wallet_gives_empty_collection:
  assumes "\<forall>u \<in> set (users w). wallet_address u \<noteq> lower address"
  shows "fst (get_user_copy_trades user_fault list_fault address type w)
           = \<lparr>status = 200, body = JObj [(''copyTrades'', JArr [])]\<rparr>
       \<and> fst (get_agents user_fault' agents status_of address w)
           = \<lparr>status = 200, body = JObj [(''agents'', JArr [])]\<rparr>"
  by (simp add: get_user_copy_trades_def get_agents_def json_def
        users_by_wallet_absent [OF assms] rejected_def)

theorem unknown_wallet_gives_empty_collection_witness:
  "fst (get_user_copy_trades False False ''0xCC'' (Some ''following'') sample_world)
     = \<lparr>status = 200, body = JObj [(''copyTrades'', JArr [])]\<rparr>
   \<and> fst (get_agents False \<lparr>data = Some [], error = None\<rparr> (\<lambda>a. Inl ''unreachable'') ''0xCC'' sample_world)
     = \<lparr>status = 200, body = JObj [(''agents'', JArr [])]\<rparr>"
proof -
  have "\<forall>u \<in> set (users sample_world). wallet_address u \<noteq> lower ''0xCC''"
    by (simp add: sample_world_def alice_def bob_def lower_sample)
  from unknown_wallet_gives_empty_collection [OF this] show ?thesis by blast
qed

text \<open>
  C10, as stated, fails: the agent is known, and the timestamp of the execution is an
  object that converts to no primitive. \<^verbatim>\<open>new Date(executionData.timestamp)\<close> throws
  while the row of the insert is built, and the outer \<^verbatim>\<open>catch\<close> answers 500.
\<close>

theorem webhook_timestamp_counterexample:
  "\<not> (status (fst (post_webhook_execution
          \<lparr>data = Some (JObj [(''id'', JNum 4)]), error = None\<rparr>
          \<lparr>data = None, error = Some Rejected\<rparr>
          [(''agentAddress'', JStr ''0xa9e7''),
           (''executionData'', JObj [(''timestamp'', JObj [(''toString'', JNull)])])]
          empty_world)) = 200)"
  by (simp add: post_webhook_execution_def field_def nullable_def fail_def)

text \<open>
  C10, amended: when the agent address and the timestamp of the execution convert to a
  primitive and the lookup gives the agent's row, the webhook answers 200 with
  \<^verbatim>\<open>Execution recorded successfully\<close> whatever the insert of the execution resolves
  to, and a failed insert leaves a console line and nothing else. When the timestamp
  converts to no primitive it answers 500 and sends no insert. In both cases the response
  is the same for every outcome of the insert.
\<close>

theorem webhook_insert_failure_not_reflected:
  assumes "truthy (field reqbody ''agentAddress'')"
    and "\<not> unconvertible (field reqbody ''agentAddress'')"
    and "truthy (field reqbody ''executionData'')"
    and "error agent_lookup = None" and "data agent_lookup = Some agent" and "truthy agent"
  shows "(\<not> unconvertible (jsprop (field reqbody ''executionData'') ''timestamp'') \<longrightarrow>
            fst (post_webhook_execution agent_lookup stored reqbody w)
              = \<lparr>status = 200, body = JObj [(''message'', JStr ''Execution recorded successfully''),
                                           (''agentAddress'', field reqbody ''agentAddress'')]\<rparr>
          \<and> events (snd (post_webhook_execution agent_lookup stored reqbody w))
              = events w @ [Call ''x402_agents'' ''select'', Call ''agent_executions'' ''insert'']
                @ (if error stored \<noteq> None then [Console ''Execution recording failed:''] else []))
       \<and> (unconvertible (jsprop (field reqbody ''executionData'') ''timestamp'') \<longrightarrow>
            fst (post_webhook_execution agent_lookup stored reqbody w)
              = \<lparr>status = 500, body = JObj [(''error'', JStr ''Webhook processing failed'')]\<rparr>
          \<and> events (snd (post_webhook_execution agent_lookup stored reqbody w))
              = events w @ [Call ''x402_agents'' ''select'', Console ''Webhook processing error:''])
       \<and> fst (post_webhook_execution agent_lookup stored reqbody w)
            = fst (post_webhook_execution agent_lookup stored' reqbody w)"
  using assms
  by (simp add: post_webhook_execution_def json_def fail_def nullable_def Let_def)

theorem webhook_insert_failure_not_reflected_witness:
  "fst (post_webhook_execution \<lparr>data = Some (JObj [(''id'', JNum 4)]), error = None\<rparr>
          \<lparr>data = None, error = Some Rejected\<rparr>
          [(''agentAddress'', JStr ''0xa9e7''),
           (''executionData'', JObj [(''marketId'', JNum 1), (''timestamp'', JNum 1700000000000)])]
          empty_world)
     = \<lparr>status = 200, body = JObj [(''message'', JStr ''Execution recorded successfully''),
                                  (''agentAddress'', JStr ''0xa9e7'')]\<rparr>
   \<and> events (snd (post_webhook_execution \<lparr>data = Some (JObj [(''id'', JNum 4)]), error = None\<rparr>
          \<lparr>data = None, error = Some Rejected\<rparr>
          [(''agentAddress'', JStr ''0xa9e7''),
           (''executionData'', JObj [(''marketId'', JNum 1), (''timestamp'', JNum 1700000000000)])]
          empty_world))
     = [Call ''x402_agents'' ''select'', Call ''agent_executions'' ''insert'',
        Console ''Execution recording failed:'']
   \<and> fst (post_webhook_execution \<lparr>data = Some (JObj [(''id'', JNum 4)]), error = None\<rparr>
          \<lparr>data = None, error = Some Rejected\<rparr>
          [(''agentAddress'', JStr ''0xa9e7''),
           (''executionData'', JObj [(''marketId'', JNum 1), (''timestamp'', JNum 1700000000000)])]
          empty_world)
     = fst (post_webhook_execution \<lparr>data = Some (JObj [(''id'', JNum 4)]), error = None\<rparr>
          \<lparr>data = Some (), error = None\<rparr>
          [(''agentAddress'', JStr ''0xa9e7''),
           (''executionData'', JObj [(''marketId'', JNum 1), (''timestamp'', JNum 1700000000000)])]
          empty_world)"
  using webhook_insert_failure_not_reflected [of
      "[(''agentAddress'', JStr ''0xa9e7''),
        (''executionData'', JObj [(''marketId'', JNum 1), (''timestamp'', JNum 1700000000000)])]"
      "\<lparr>data = Some (JObj [(''id'', JNum 4)]), error = None\<rparr>" "JObj [(''id'', JNum 4)]"
      "\<lparr>data = None, error = Some Rejected\<rparr>" empty_world "\<lparr>data = Some (), error = None\<rparr>"]
  by (auto simp add: field_def empty_world_def)

text \<open>The request of the counterexample in full: the lookup is sent, the insert is not.\<close>

lemma webhook_unconvertible_timestamp:
  "post_webhook_execution \<lparr>data = Some (JObj [(''id'', JNum 4)]), error = None\<rparr> stored
      [(''agentAddress'', JStr ''0xa9e7''),
       (''executionData'', JObj [(''timestamp'', JObj [(''toString'', JNull)])])]
      empty_world
   = (\<lparr>status = 500, body = JObj [(''error'', JStr ''Webhook processing failed'')]\<rparr>,
      \<lparr>users = [], copy_trades = [],
       events = [Call ''x402_agents'' ''select'', Console ''Webhook processing error:'']\<rparr>)"
  by (simp add: post_webhook_execution_def field_def nullable_def fail_def emit_def empty_world_def)

text \<open>
  C4: a PUT /:id whose wallet address resolves to a user who is not the follower of the
  rows with that id is answered 404, and the tables are left as they were.
\<close>

theorem put_by_non_owner_is_404:
  assumes wa: "field reqbody ''walletAddress'' = JStr a" and ne: "a \<noteq> []"
    and u: "filter (\<lambda>x. wallet_address x = lower a) (users w) = [u]"
    and notowner: "\<forall>r \<in> set (copy_trades w). eq_id pid (ctid r) \<longrightarrow> follower_id r \<noteq> uid u"
  shows "status (fst (put_copy_trade parseFloat now user_fault fetch_fault update_fault pid reqbody w)) = 404
       \<and> copy_trades (snd (put_copy_trade parseFloat now user_fault fetch_fault update_fault pid reqbody w))
           = copy_trades w
       \<and> users (snd (put_copy_trade parseFloat now user_fault fetch_fault update_fault pid reqbody w))
           = users w"
proof -
  have sel: "users_by_wallet user_fault (lower a) w
      = (if user_fault then rejected else found u, emit (Call ''users'' ''select'') w)"
    by (rule users_by_wallet_resolved [OF u])
  have none: "\<forall>r \<in> set (copy_trades (emit (Call ''users'' ''select'') w)).
      \<not> (eq_id pid (ctid r) \<and> follower_id r = uid u)"
    using notowner by simp
  show ?thesis
    by (simp add: put_copy_trade_def wa ne toLowerCase_def sel
        copy_trades_single_none [OF none] rejected_def found_def fail_def)
qed

theorem put_by_non_owner_is_404_witness:
  "status (fst (put_copy_trade (\<lambda>v. v) 1700000000000 False False False (Some 5)
      [(''walletAddress'', JStr ''0xAA''), (''amount'', JNum 99), (''active'', JBool False)]
      sample_world)) = 404
   \<and> copy_trades (snd (put_copy_trade (\<lambda>v. v) 1700000000000 False False False (Some 5)
      [(''walletAddress'', JStr ''0xAA''), (''amount'', JNum 99), (''active'', JBool False)]
      sample_world)) = [bob_follows_alice]"
proof -
  have l: "lower ''0xAA'' = ''0xaa''" by code_simp
  have h1: "field [(''walletAddress'', JStr ''0xAA''), (''amount'', JNum 99), (''active'', JBool False)]
      ''walletAddress'' = JStr ''0xAA''"
    by (simp add: field_def)
  have h2: "''0xAA'' \<noteq> []" by simp
  have h3: "filter (\<lambda>x. wallet_address x = lower ''0xAA'') (users sample_world) = [alice]"
    by (simp add: l sample_world_def alice_def bob_def)
  have h4: "\<forall>r \<in> set (copy_trades sample_world). eq_id (Some 5) (ctid r) \<longrightarrow> follower_id r \<noteq> uid alice"
    by (simp add: sample_world_def bob_follows_alice_def alice_def)
  from put_by_non_owner_is_404 [OF h1 h2 h3 h4] show ?thesis
    by (simp add: sample_world_def)
qed

section \<open>Persistence after an external write\<close>

text \<open>
  The HTTP status of a bet and of an agent creation does not depend on what the insert
  resolves to, and the response carries the transaction hash, or the agent's address and
  hash (when both limits convert to a primitive), of the external write. For a market
  creation this holds when the end time is a valid Date.
\<close>

lemma bet_status_independent:
  "status (fst (post_bet now user_fault chain stored pid reqbody w))
     = status (fst (post_bet now user_fault chain stored' pid reqbody w))"
  by (simp add: post_bet_def Let_def split_def json_def fail_def split: option.split sum.split)

lemma bet_txHash:
  "chain = Inr tx \<Longrightarrow> status (fst (post_bet now user_fault chain stored pid reqbody w)) = 200 \<Longrightarrow>
   jsprop (body (fst (post_bet now user_fault chain stored pid reqbody w))) ''txHash'' = tx"
  by (simp add: post_bet_def Let_def split_def json_def fail_def field_def
        split: option.split_asm if_split_asm)


lemma create_status_independent:
  assumes "end_time now (toNumber (field reqbody ''duration'')) \<noteq> None"
  shows "status (fst (post_create toNumber now user_fault chain stored reqbody w))
     = status (fst (post_create toNumber now user_fault chain stored' reqbody w))"
proof -
  from assms obtain t where "end_time now (toNumber (field reqbody ''duration'')) = Some t"
    by auto
  then show ?thesis
    by (auto simp add: post_create_def Let_def split_def json_def fail_def
        split: option.split sum.split)
qed

lemma create_marketId:
  "chain = Inr marketId \<Longrightarrow>
   status (fst (post_create toNumber now user_fault chain stored reqbody w)) = 200 \<Longrightarrow>
   jsprop (body (fst (post_create toNumber now user_fault chain stored reqbody w))) ''marketId'' = marketId"
  by (simp add: post_create_def Let_def split_def json_def fail_def field_def
        split: option.split_asm if_split_asm)

lemma agent_create_status_independent:
  "status (fst (post_agent_create now ra rt ff tf x402 stored reqbody w))
     = status (fst (post_agent_create now ra rt ff tf x402 stored' reqbody w))"
  by (simp add: post_agent_create_def Let_def split_def json_def fail_def
        split: option.split sum.split)

lemma agent_create_carries_result:
  assumes "x402 = Inr agentResult"
    and "\<not> unconvertible (field reqbody ''maxPerTrade'')"
    and "\<not> unconvertible (field reqbody ''totalLimit'')"
    and "status (fst (post_agent_create now ra rt ff tf x402 stored reqbody w)) = 200"
  shows "jsprop (jsprop (body (fst (post_agent_create now ra rt ff tf x402 stored reqbody w))) ''agent'')
            ''agentAddress'' = agentAddress agentResult
       \<and> jsprop (jsprop (body (fst (post_agent_create now ra rt ff tf x402 stored reqbody w))) ''agent'')
            ''txHash'' = txHash agentResult"
proof -
  obtain fa ta where fa: "toLowerCase (field reqbody ''followerAddress'') = Some fa"
    and ta: "toLowerCase (field reqbody ''traderAddress'') = Some ta"
    and ok: "error (fst (users_upsert ff fa None w)) = None"
      "error (fst (users_upsert tf ta (Some (JBool True)) (snd (users_upsert ff fa None w)))) = None"
    using assms(4)
    by (simp add: post_agent_create_def Let_def split_def json_def fail_def
        split: option.split_asm if_split_asm)
  from ok obtain u v where "data (fst (users_upsert ff fa None w)) = Some u"
    "data (fst (users_upsert tf ta (Some (JBool True)) (snd (users_upsert ff fa None w)))) = Some v"
    using users_upsert_data by blast
  with assms fa ta ok show ?thesis
    by (simp add: post_agent_create_def Let_def split_def json_def fail_def field_def
        split: if_split_asm)
qed

text \<open>
  A limit that converts to no primitive: the service has created the agent, and the
  response is the demo agent.
\<close>

lemma agent_create_unconvertible_limit:
  "fst (post_agent_create 1700000000000 ''a1'' ''b2'' False False
          (Inr \<lparr>agentAddress = JStr ''0xa9e7'', txHash = JStr ''0xfeed''\<rparr>)
          \<lparr>data = None, error = None\<rparr>
          [(''followerAddress'', JStr ''0xbb''), (''traderAddress'', JStr ''0xaa''),
           (''maxPerTrade'', JObj [(''toString'', JNull)]), (''totalLimit'', JNum 100)]
          sample_world)
   = \<lparr>status = 200, body = JObj
        [(''agent'', JObj
            [(''id'', JNum 1700000000000),
             (''agentAddress'', JStr ''0xa1''),
             (''traderAddress'', JStr ''0xaa''),
             (''followerAddress'', JStr ''0xbb''),
             (''maxPerTrade'', JObj [(''toString'', JNull)]),
             (''totalLimit'', JNum 100),
             (''categories'', JArr []),
             (''active'', JBool True),
             (''txHash'', JStr ''0xb2''),
             (''demo'', JBool True)]),
         (''message'', JStr ''Demo agent created (x402 service unavailable)''),
         (''warning'', JStr ''This is a demo agent - x402 service integration pending'')]\<rparr>"
  by (simp add: post_agent_create_def field_def toLowerCase_def lower_def lower_char_def
        users_upsert_def sample_world_def alice_def bob_def found_def json_def or_else_def Let_def)


text \<open>
  C3 fails on POST /create: with a duration of 1e13 seconds the end time is an Invalid Date.
  The blockchain call succeeds with market id 7. When the insert fails the fallback
  object is built, \<^verbatim>\<open>endTime.toISOString()\<close> throws, and the handler answers 500; when
  the insert succeeds the same request is answered 200.
\<close>

theorem create_market_persistence_failure_is_500:
  "fst (post_create plain_number 1700000000000 False (Inr (JNum 7))
          \<lparr>data = None, error = Some Rejected\<rparr>
          [(''walletAddress'', JStr ''0xbb''), (''question'', JStr ''Will it rain?''),
           (''category'', JStr ''weather''), (''duration'', JNum 10000000000000)]
          sample_world)
     = \<lparr>status = 500, body = JObj [(''error'', JStr ''Failed to create market'')]\<rparr>
   \<and> fst (post_create plain_number 1700000000000 False (Inr (JNum 7))
          \<lparr>data = Some (JObj [(''id'', JNum 7)]), error = None\<rparr>
          [(''walletAddress'', JStr ''0xbb''), (''question'', JStr ''Will it rain?''),
           (''category'', JStr ''weather''), (''duration'', JNum 10000000000000)]
          sample_world)
     = \<lparr>status = 200, body = JObj [(''marketId'', JNum 7), (''market'', JObj [(''id'', JNum 7)])]\<rparr>"
  by (simp add: post_create_def field_def toLowerCase_def lower_sample users_upsert_def
        sample_world_def alice_def bob_def found_def fail_def json_def nullable_def
        end_time_def plain_number_def Let_def)

theorem create_market_persistence_failure_is_500_witness:
  "status (fst (post_create plain_number 1700000000000 False (Inr (JNum 7))
          \<lparr>data = None, error = Some Rejected\<rparr>
          [(''walletAddress'', JStr ''0xbb''), (''question'', JStr ''Will it rain?''),
           (''category'', JStr ''weather''), (''duration'', JNum 10000000000000)]
          sample_world)) = 500"
  using create_market_persistence_failure_is_500 by simp

section \<open>Deactivation and listing\<close>

lemma delete_success:
  assumes wa: "field reqbody ''walletAddress'' = JStr a"
    and owner: "filter (\<lambda>x. wallet_address x = lower a) (users w) = [u]"
    and run: "delete_copy_trade now uf upf pid reqbody w = (resp, w1)"
    and ok: "status resp = 200"
  shows "\<exists>r0. filter (\<lambda>r. eq_id pid (ctid r) \<and> follower_id r = uid u) (copy_trades w) = [r0]
           \<and> copy_trades w1 =
               map (\<lambda>x. if eq_id pid (ctid x) \<and> follower_id x = uid u
                         then x\<lparr>active := JBool False, updated_at := JTime now\<rparr> else x)
                   (copy_trades w)
           \<and> users w1 = users w"
proof -
  let ?p = "\<lambda>r. eq_id pid (ctid r) \<and> follower_id r = uid u"
  let ?g = "\<lambda>r. r\<lparr>active := JBool False, updated_at := JTime now\<rparr>"
  let ?w0 = "emit (Call ''users'' ''select'') w"
  have sel: "\<And>f. users_by_wallet f (lower a) w = (if f then rejected else found u, ?w0)"
    by (rule users_by_wallet_resolved [OF owner])
  obtain res w' where upd: "copy_trades_update upf ?p ?g ?w0 = (res, w')"
    by (cases "copy_trades_update upf ?p ?g ?w0")
  from run ok have ne: "a \<noteq> []" and nf: "\<not> uf"
    by (auto simp add: delete_copy_trade_def wa fail_def toLowerCase_def sel rejected_def
          split: if_split_asm)
  from run ok ne nf have e: "error res = None" and w1: "w1 = w'"
    by (auto simp add: delete_copy_trade_def wa fail_def json_def toLowerCase_def sel found_def upd
          split: if_split_asm option.split_asm)
  from copy_trades_update_success [OF upd e] w1 show ?thesis by auto
qed

text \<open>
  C6: after a DELETE /:id by the owner that is answered 200, the row is still in the table
  with \<^verbatim>\<open>active = false\<close>, no row of that id and owner is active, and a following
  GET /user/:address of the owner, with any \<^verbatim>\<open>type\<close> but \<^verbatim>\<open>followers\<close>, does not list
  the id, whatever its store calls do.
\<close>

theorem delete_deactivates_and_unlists:
  assumes wa: "field reqbody ''walletAddress'' = JStr a"
    and owner: "filter (\<lambda>x. wallet_address x = lower a) (users w) = [u]"
    and row: "r \<in> set (copy_trades w)" "ctid r = n" "follower_id r = uid u"
    and run: "delete_copy_trade now uf upf (Some n) reqbody w = (resp, w1)"
    and ok: "status resp = 200"
    and same: "lower b = lower a"
    and ty: "type \<noteq> Some ''followers''"
  shows "r\<lparr>active := JBool False, updated_at := JTime now\<rparr> \<in> set (copy_trades w1)
       \<and> (\<forall>x \<in> set (copy_trades w1). ctid x = n \<and> follower_id x = uid u \<longrightarrow> active x = JBool False)
       \<and> JNum (of_int n) \<notin> set (listed_ids (fst (get_user_copy_trades uf' lf' b type w1)))"
proof -
  let ?p = "\<lambda>r. eq_id (Some n) (ctid r) \<and> follower_id r = uid u"
  let ?g = "\<lambda>r. r\<lparr>active := JBool False, updated_at := JTime now\<rparr>"
  from delete_success [OF wa owner run ok]
  have ct: "copy_trades w1 = map (\<lambda>x. if ?p x then ?g x else x) (copy_trades w)"
    and us: "users w1 = users w"
    by auto
  have a1: "?g r \<in> set (copy_trades w1)"
    using row by (force simp add: ct)
  have a2: "\<forall>x \<in> set (copy_trades w1). ctid x = n \<and> follower_id x = uid u \<longrightarrow> active x = JBool False"
    by (auto simp add: ct split: if_split_asm)
  have sel: "users_by_wallet uf' (lower b) w1
      = (if uf' then rejected else found u, emit (Call ''users'' ''select'') w1)"
    by (rule users_by_wallet_resolved) (simp add: same us owner)
  have a3: "JNum (of_int n) \<notin> set (listed_ids (fst (get_user_copy_trades uf' lf' b type w1)))"
    using a2 ty
    by (auto simp add: get_user_copy_trades_def sel listed_ids_def json_def fail_def field_def
          rejected_def found_def copy_trades_list_def Let_def format_copy_trade_id)
  from a1 a2 a3 show ?thesis by blast
qed


theorem delete_deactivates_and_unlists_witness:
  "status (fst (delete_copy_trade 1700000001000 False False (Some 5)
             [(''walletAddress'', JStr ''0xBB'')] sample_world)) = 200
   \<and> bob_follows_alice\<lparr>active := JBool False, updated_at := JTime 1700000001000\<rparr>
       \<in> set (copy_trades (snd (delete_copy_trade 1700000001000 False False (Some 5)
                                  [(''walletAddress'', JStr ''0xBB'')] sample_world)))
   \<and> JNum 5 \<notin> set (listed_ids (fst (get_user_copy_trades False False ''0xbb'' (Some ''following'')
                        (snd (delete_copy_trade 1700000001000 False False (Some 5)
                                [(''walletAddress'', JStr ''0xBB'')] sample_world)))))"
proof -
  let ?d = "delete_copy_trade 1700000001000 False False (Some 5)
              [(''walletAddress'', JStr ''0xBB'')] sample_world"
  have h1: "field [(''walletAddress'', JStr ''0xBB'')] ''walletAddress'' = JStr ''0xBB''"
    by (simp add: field_def)
  have h2: "filter (\<lambda>x. wallet_address x = lower ''0xBB'') (users sample_world) = [bob]"
    by (simp add: lower_sample sample_world_def alice_def bob_def)
  have h3: "bob_follows_alice \<in> set (copy_trades sample_world)"
    by (simp add: sample_world_def)
  have h4: "ctid bob_follows_alice = 5" and h5: "follower_id bob_follows_alice = uid bob"
    by (simp_all add: bob_follows_alice_def bob_def)
  have h6: "?d = (fst ?d, snd ?d)" by simp
  have h7: "status (fst ?d) = 200"
    by (simp add: delete_copy_trade_def h1 toLowerCase_def lower_sample users_by_wallet_def
          single_def found_def copy_trades_update_def sample_world_def bob_follows_alice_def
          alice_def bob_def json_def Let_def)
  have h8: "lower ''0xbb'' = lower ''0xBB''" by (simp add: lower_sample)
  have h9: "Some ''following'' \<noteq> Some ''followers''" by simp
  from delete_deactivates_and_unlists [OF h1 h2 h3 h4 h5 h6 h7 h8 h9, of False False] h7
  show ?thesis by simp
qed

text \<open>
  The listing writes nothing, so what holds for the first GET after the DELETE holds for
  each later one, until a request writes the row again.
\<close>

lemma get_user_copy_trades_reads_only:
  "users (snd (get_user_copy_trades uf lf b type w)) = users w
   \<and> copy_trades (snd (get_user_copy_trades uf lf b type w)) = copy_trades w"
  by (simp add: get_user_copy_trades_def users_by_wallet_def copy_trades_list_def Let_def
        split_def split: option.split)

section \<open>Registration\<close>

lemma post_register_users:
  "users (snd (post_register uf t reqbody w)) =
     (if truthy (field reqbody ''walletAddress'')
      then (case toLowerCase (field reqbody ''walletAddress'') of
              None \<Rightarrow> users w
            | Some addr \<Rightarrow>
                users (snd (users_upsert uf addr
                  (Some (default_to (field reqbody ''isPublic'') (JBool True))) w)))
      else users w)"
  by (simp add: post_register_def Let_def split_def split: option.split)

lemma post_register_keeps_key:
  "distinct (map wallet_address (users w)) \<Longrightarrow>
   distinct (map wallet_address (users (snd (post_register uf t reqbody w))))"
  by (simp add: post_register_users users_upsert_keeps_key split: option.split)

text \<open>
  C7: on a store whose wallet addresses are unique, after any first request (in particular a
  registration of the same address with another \<^verbatim>\<open>isPublic\<close>) a registration whose
  upsert is carried out leaves exactly one user row for the lowercased address, and its
  \<^verbatim>\<open>is_public\<close> is the value of that last request (\<^verbatim>\<open>true\<close> when it gives none).
\<close>

theorem register_twice_last_write_wins:
  assumes uniq: "distinct (map wallet_address (users w))"
    and wa2: "field body2 ''walletAddress'' = JStr a2" and ne: "a2 \<noteq> []"
  shows "\<exists>u. filter (\<lambda>x. wallet_address x = lower a2)
               (users (snd (post_register False t2 body2 (snd (post_register f1 t1 body1 w))))) = [u]
           \<and> is_public u = Some (default_to (field body2 ''isPublic'') (JBool True))"
proof -
  let ?w1 = "snd (post_register f1 t1 body1 w)"
  have "distinct (map wallet_address (users ?w1))"
    by (rule post_register_keeps_key [OF uniq])
  from users_upsert_writes [OF this, of "lower a2" "default_to (field body2 ''isPublic'') (JBool True)"]
  obtain u where
    "filter (\<lambda>x. wallet_address x = lower a2)
       (users (snd (users_upsert False (lower a2)
          (Some (default_to (field body2 ''isPublic'') (JBool True))) ?w1))) = [u]"
    and "is_public u = Some (default_to (field body2 ''isPublic'') (JBool True))"
    by blast
  then show ?thesis
    by (simp add: post_register_users wa2 ne toLowerCase_def)
qed


theorem register_twice_last_write_wins_witness:
  "filter (\<lambda>x. wallet_address x = ''0xcc'')
     (users (snd (post_register False \<lparr>data = Some (JObj [(''id'', JNum 1)]), error = None\<rparr>
                    [(''walletAddress'', JStr ''0xCC''), (''isPublic'', JBool False)]
                    (snd (post_register False \<lparr>data = Some (JObj [(''id'', JNum 1)]), error = None\<rparr>
                            [(''walletAddress'', JStr ''0xcc''), (''isPublic'', JBool True)]
                            sample_world)))))
     = [\<lparr>uid = 3, wallet_address = ''0xcc'', is_public = Some (JBool False)\<rparr>]"
proof -
  have h1: "distinct (map wallet_address (users sample_world))"
    by (simp add: sample_world_def alice_def bob_def)
  have h2: "field [(''walletAddress'', JStr ''0xCC''), (''isPublic'', JBool False)] ''walletAddress''
      = JStr ''0xCC''"
    by (simp add: field_def)
  have h3: "''0xCC'' \<noteq> []" by simp
  have l: "lower ''0xcc'' = ''0xcc''" by code_simp
  have first: "users (snd (post_register False \<lparr>data = Some (JObj [(''id'', JNum 1)]), error = None\<rparr>
                  [(''walletAddress'', JStr ''0xcc''), (''isPublic'', JBool True)] sample_world))
      = [alice, bob, \<lparr>uid = 3, wallet_address = ''0xcc'', is_public = Some (JBool True)\<rparr>]"
    by (simp add: post_register_users field_def toLowerCase_def l default_to_def users_upsert_def
          sample_world_def alice_def bob_def fresh_id_def Let_def)
  have step: "\<And>W. users W = [alice, bob, \<lparr>uid = 3, wallet_address = ''0xcc'', is_public = Some (JBool True)\<rparr>]
      \<Longrightarrow> users (snd (post_register False \<lparr>data = Some (JObj [(''id'', JNum 1)]), error = None\<rparr>
                  [(''walletAddress'', JStr ''0xCC''), (''isPublic'', JBool False)] W))
          = [alice, bob, \<lparr>uid = 3, wallet_address = ''0xcc'', is_public = Some (JBool False)\<rparr>]"
    by (simp add: post_register_users field_def toLowerCase_def lower_sample default_to_def
          users_upsert_def alice_def bob_def Let_def)
  note second = step [OF first]
  from register_twice_last_write_wins [OF h1 h2 h3,
      of "\<lparr>data = Some (JObj [(''id'', JNum 1)]), error = None\<rparr>" False
         "\<lparr>data = Some (JObj [(''id'', JNum 1)]), error = None\<rparr>"
         "[(''walletAddress'', JStr ''0xcc''), (''isPublic'', JBool True)]"]
  show ?thesis
    by (simp add: second lower_sample alice_def bob_def)
qed

end
